theory Spec2Isabelle
  imports Main "HOL-Library.Word"
begin

section \<open>Feature maps\<close>

text \<open>
  \<^verbatim>\<open>analyzer<T>::feature_map\<close> is \<^verbatim>\<open>std::unordered_map<std::string, T>\<close>
  (analyzer.h, line 63). A map from feature names to values models it; the value type
  stays a type variable, as the template argument \<^verbatim>\<open>T\<close> does. The instance
  \<^verbatim>\<open>uint64_t\<close> is \<open>64 word\<close>.
\<close>

type_synonym 'v feature_map = "string \<rightharpoonup> 'v"

type_synonym size_t = "64 word"

type_synonym uint64_t = "64 word"

text \<open>
  \<^verbatim>\<open>counts[rep]\<close>: \<^verbatim>\<open>operator[]\<close> of the unordered map inserts a value-initialised
  \<^verbatim>\<open>T\<close> (zero) when the key is absent and yields the stored value otherwise.
\<close>

definition subscript :: "'v::zero feature_map \<Rightarrow> string \<Rightarrow> 'v" where
  "subscript counts k = (case counts k of None \<Rightarrow> 0 | Some v \<Rightarrow> v)"

text \<open>\<^verbatim>\<open>counts[rep] += 1\<close>\<close>

definition increment :: "string \<Rightarrow> ('v::{zero,one,plus}) feature_map \<Rightarrow> 'v feature_map" where
  "increment rep counts = counts(rep \<mapsto> subscript counts rep + 1)"

section \<open>Parse trees and the height visitor (depth\_featurizer.cpp)\<close>

text \<open>
  The node classes \<^verbatim>\<open>parser::internal_node\<close> and \<^verbatim>\<open>parser::leaf_node\<close> are included
  by depth\_featurizer.cpp but their declarations are not part of the sources.
  A node is one of the two shapes the visitor has a branch for: a leaf (a pre-terminal
  with its category and an optional word) or an internal node (its category and the
  ordered children that \<^verbatim>\<open>each_child\<close> walks through).
\<close>

datatype node =
    leaf_node string "string option"
  | internal_node string "node list"

datatype parse_tree = parse_tree node

text \<open>
  \<^verbatim>\<open>height_visitor\<close>, lines 16 to 35. The internal branch starts \<^verbatim>\<open>max_height\<close> at 0,
  takes \<^verbatim>\<open>std::max\<close> with each child's result in turn and returns
  \<^verbatim>\<open>max_height + 1\<close>; the leaf branch returns 1. All of it is \<^verbatim>\<open>size_t\<close> arithmetic.
\<close>

fun height_visitor :: "node \<Rightarrow> size_t" where
  "height_visitor (internal_node cat children) =
     fold (\<lambda>child max_height. max max_height (height_visitor child)) children 0 + 1"
| "height_visitor (leaf_node cat w) = 1"

text \<open>\<^verbatim>\<open>tree.visit(vtor)\<close> hands the root to the visitor.\<close>

fun visit :: "parse_tree \<Rightarrow> (node \<Rightarrow> 'r) \<Rightarrow> 'r" where
  "visit (parse_tree root) vtor = vtor root"

text \<open>
  \<^verbatim>\<open>std::to_string\<close> on an unsigned value: its decimal digits, most significant
  first, no sign and no leading zero.
\<close>

definition digit_char :: "nat \<Rightarrow> char" where
  "digit_char d = ''0123456789'' ! d"

fun to_string :: "nat \<Rightarrow> string" where
  "to_string n =
     (if n < 10 then [digit_char n] else to_string (n div 10) @ [digit_char (n mod 10)])"

declare to_string.simps [simp del]

text \<open>\<^verbatim>\<open>depth_featurizer<T>::tree_tokenize\<close>, lines 38 to 45.\<close>

definition tree_tokenize ::
  "parse_tree \<Rightarrow> ('v::{zero,one,plus}) feature_map \<Rightarrow> 'v feature_map" where
  "tree_tokenize tree counts =
     (let rep = ''depth-'' @ to_string (unat (visit tree height_visitor))
      in increment rep counts)"

subsection \<open>The height of a tree, as the specification words it\<close>

text \<open>
  A leaf's height is 1; an internal node's height is one plus the maximum height of its
  children. Heights are natural numbers here, with no machine width. The maximum of no
  children is taken as 0.
\<close>

fun max_list :: "nat list \<Rightarrow> nat" where
  "max_list [] = 0"
| "max_list (x # xs) = max x (max_list xs)"

fun tree_height :: "node \<Rightarrow> nat" where
  "tree_height (leaf_node cat w) = 1"
| "tree_height (internal_node cat children) = 1 + max_list (map tree_height children)"

text \<open>Reading a decimal rendering back, to state that \<open>to_string\<close> is one.\<close>

definition digit_value :: "char \<Rightarrow> nat" where
  "digit_value c = of_char c - 48"

definition from_decimal :: "string \<Rightarrow> nat" where
  "from_decimal s = foldl (\<lambda>acc c. 10 * acc + digit_value c) 0 s"

section \<open>The n-gram-over-tags analyzer (ngram\_pos\_analyzer.h)\<close>

text \<open>
  The sources hold the class declaration only: the constructor, the copy
  constructor, \<^verbatim>\<open>tokenize\<close>, the three private members and the factory hook
  \<^verbatim>\<open>analyzer_traits<ngram_pos_analyzer<T>>::create\<close>. Their bodies, and the classes
  they are built from (\<^verbatim>\<open>corpus::document\<close>, \<^verbatim>\<open>token_stream\<close>, \<^verbatim>\<open>sequence::crf\<close>,
  \<^verbatim>\<open>cpptoml::table\<close>, the factory), are not. Each definition of this section says
  what it is modelled from.
\<close>

text \<open>
  Modelled from the spec: the class \<^verbatim>\<open>corpus::document\<close> is only forward-declared
  (analyzer.h, line 29). A document is an opaque identifier plus raw textual content and
  a source path.
\<close>

record document =
  doc_id :: nat
  content :: string
  path :: string

text \<open>
  Modelled from the spec: the body of \<^verbatim>\<open>get_content\<close> (analyzer.h, line 153) is
  missing. It returns the contents of the document, as a string.
\<close>

definition get_content :: "document \<Rightarrow> string" where
  "get_content doc = content doc"

text \<open>
  Modelled from the spec: the places that throw are missing; \<^verbatim>\<open>analyzer_exception\<close>
  (analyzer.h, lines 99 to 103) is a \<^verbatim>\<open>std::runtime_error\<close> carrying a message.
  The two kinds of construction failure the specification names are told apart: a
  configuration error and a tagging (resource-load) error.
\<close>

datatype error = configuration_error string | tagging_error string

text \<open>
  Modelled from the spec: \<^verbatim>\<open>cpptoml::table\<close> is only forward-declared (analyzer.h,
  line 21). A configuration block is a list of named fields; a field is an integer, a
  string, a truth value or a list of values.
\<close>

datatype toml = toml_int int | toml_string string | toml_bool bool | toml_array "toml list"

type_synonym table = "(string \<times> toml) list"

subsection \<open>Sequence tagger adapter\<close>

text \<open>
  Modelled from the spec: the class \<^verbatim>\<open>sequence::crf\<close> behind the member \<^verbatim>\<open>crf_\<close>
  (line 86) and the helper \<^verbatim>\<open>seq_analyzer_\<close> (line 89) are missing. The model is
  opaque and assigns one label per input token; it is read-only after loading. A value
  of type \<open>crf\<close> stands for the loaded model together with its feature-generation
  helper: given the token sequence of one segment and a position, the label of the token
  at that position.
\<close>

type_synonym crf = "string list \<Rightarrow> nat \<Rightarrow> string"

text \<open>
  Modelled from the spec: the adapter's tagging operation is missing. Given an ordered
  token sequence for one segment it returns the ordered tag sequence, one label per
  token, with no state kept between calls.
\<close>

definition tag_sequence :: "crf \<Rightarrow> string list \<Rightarrow> string list" where
  "tag_sequence model tokens = map (model tokens) [0..<length tokens]"

subsection \<open>Token stream\<close>

text \<open>
  Modelled from the spec: the class \<^verbatim>\<open>token_stream\<close> is only forward-declared
  (analyzer.h, line 35). A configured filter chain turns a document's content into its
  token sequence, already cut into segments at the sentence boundaries the chain marks.
  The stream's transient state is the segments not yet pulled; it belongs to the one
  analyzer that holds the stream.
\<close>

type_synonym filter_chain = "string \<Rightarrow> string list list"

record token_stream =
  chain :: filter_chain
  pending :: "string list list"

text \<open>
  Modelled from the spec: feeding a document to the stream is missing. The stream state
  is not persisted across documents: new content replaces whatever was pending.
\<close>

definition set_content :: "token_stream \<Rightarrow> string \<Rightarrow> token_stream" where
  "set_content stream text = stream\<lparr>pending := chain stream text\<rparr>"

subsection \<open>The analyzer\<close>

text \<open>
  The members of \<^verbatim>\<open>ngram_pos_analyzer\<close> (lines 62 and 82 to 89): the order, the
  \<^verbatim>\<open>uint16_t n\<close> handed to the constructor and kept here in the field \<open>n_value\<close>,
  the token stream \<^verbatim>\<open>stream_\<close> and the shared tagging model \<^verbatim>\<open>crf_\<close>. The
  fields \<open>stream'\<close> and \<open>crf'\<close> stand for \<^verbatim>\<open>stream_\<close> and \<^verbatim>\<open>crf_\<close>,
  names that cannot end in an underscore here.
\<close>

record ngram_pos_analyzer =
  n_value :: "16 word"
  stream' :: token_stream
  crf' :: crf

text \<open>
  Modelled from the spec: the body of \<^verbatim>\<open>ngram_pos_analyzer::tokenize\<close> (declared at
  lines 79 to 80) is missing. Each window of \<open>n\<close> consecutive tags, joined with a fixed
  separator, is one feature key. The separator is the underscore of the specification's
  example (\<open>NN_VB\<close>).
\<close>

fun join_tags :: "string list \<Rightarrow> string" where
  "join_tags [] = []"
| "join_tags [t] = t"
| "join_tags (t # ts) = t @ ''_'' @ join_tags ts"

text \<open>
  Modelled from the spec: sliding a window of width \<open>n\<close> over a segment's tag sequence,
  one window per start position that leaves room for \<open>n\<close> tags; a segment shorter than
  \<open>n\<close> has no such position.
\<close>

definition ngram_windows :: "nat \<Rightarrow> 'a list \<Rightarrow> 'a list list" where
  "ngram_windows n tags = map (\<lambda>i. take n (drop i tags)) [0..<length tags + 1 - n]"

text \<open>
  Modelled from the spec: the feature keys of a segment, one per window, in the order of
  the windows.
\<close>

definition ngram_keys :: "nat \<Rightarrow> string list \<Rightarrow> string list" where
  "ngram_keys n tags = map join_tags (ngram_windows n tags)"

text \<open>
  Modelled from the spec: the count of a window's key in the feature map is incremented
  by one per occurrence.
\<close>

definition count_segment ::
  "nat \<Rightarrow> string list \<Rightarrow> ('v::{zero,one,plus}) feature_map \<Rightarrow> 'v feature_map" where
  "count_segment n tags counts = fold increment (ngram_keys n tags) counts"

text \<open>
  Modelled from the spec: the analyzer's state once a document has been tokenized. Its
  stream has been fed the document and pulled until nothing is pending; the order and the
  tagging model are as before.
\<close>

definition after_tokenize :: "ngram_pos_analyzer \<Rightarrow> document \<Rightarrow> ngram_pos_analyzer" where
  "after_tokenize a doc =
     a\<lparr>stream' := (set_content (stream' a) (get_content doc))\<lparr>pending := []\<rparr>\<rparr>"

text \<open>
  Modelled from the spec: the body of \<^verbatim>\<open>ngram_pos_analyzer::tokenize\<close> is missing.
  The document is run through the filter chain, each segment is tagged, and the windows
  over each segment's tags are counted into the map the caller supplies. The analyzer is
  returned as the call leaves it.
\<close>

definition tokenize ::
  "ngram_pos_analyzer \<Rightarrow> document \<Rightarrow> ('v::{zero,one,plus}) feature_map
     \<Rightarrow> 'v feature_map \<times> ngram_pos_analyzer" where
  "tokenize a doc counts =
     (let stream = set_content (stream' a) (get_content doc);
          segments = pending stream;
          counts' = fold (\<lambda>segment. count_segment (unat (n_value a))
                                        (tag_sequence (crf' a) segment))
                      segments counts
      in (counts', after_tokenize a doc))"

text \<open>
  Modelled from the spec: the body of \<^verbatim>\<open>analyzer::analyze\<close> (analyzer.h, line 76) is
  missing. It delegates to \<^verbatim>\<open>tokenize\<close> on a map of its own and returns that map.
\<close>

definition analyze ::
  "ngram_pos_analyzer \<Rightarrow> document
     \<Rightarrow> ('v::{zero,one,plus}) feature_map \<times> ngram_pos_analyzer" where
  "analyze a doc = tokenize a doc Map.empty"



subsection \<open>Construction from configuration\<close>

text \<open>
  Modelled from the spec: what construction reads from outside the configuration is
  missing. The environment holds the trained tagging models by resource location and
  the filter chain builder \<^verbatim>\<open>load_filters\<close> (analyzer.h, lines 138 to 139), which
  fails with a configuration error or returns the composed stream.
\<close>

record environment =
  model_store :: "string \<rightharpoonup> crf"
  load_filters :: "table \<Rightarrow> table \<Rightarrow> error + token_stream"

text \<open>
  Modelled from the spec: the body of the constructor (lines 62 to 63) is missing. It
  loads the tagging model from the named resource location and fails with a tagging
  error when the model cannot be loaded.
\<close>

definition make_ngram_pos_analyzer ::
  "environment \<Rightarrow> 16 word \<Rightarrow> token_stream \<Rightarrow> string \<Rightarrow> error + ngram_pos_analyzer" where
  "make_ngram_pos_analyzer env n stream crf_prefix =
     (case model_store env crf_prefix of
        None \<Rightarrow> Inl (tagging_error crf_prefix)
      | Some model \<Rightarrow> Inr \<lparr>n_value = n, stream' = stream, crf' = model\<rparr>)"

text \<open>
  Modelled from the spec: the body of \<^verbatim>\<open>analyzer_traits<ngram_pos_analyzer<T>>::create\<close>
  (lines 96 to 101) is missing. The field \<open>ngram\<close> must be a positive integer,
  validated at construction; a missing field, a field of the wrong type and a model path
  that cannot be located are configuration errors. An order too large for the
  constructor's \<^verbatim>\<open>uint16_t\<close> parameter is taken as an invalid field as well.
\<close>

definition create :: "environment \<Rightarrow> table \<Rightarrow> table \<Rightarrow> error + ngram_pos_analyzer" where
  "create env global config =
     (case map_of config ''ngram'' of
        Some (toml_int n) \<Rightarrow>
          if n \<le> 0 \<or> 2 ^ 16 \<le> n then Inl (configuration_error ''ngram'')
          else (case map_of config ''crf-prefix'' of
                  Some (toml_string crf_prefix) \<Rightarrow>
                    (case load_filters env global config of
                       Inl e \<Rightarrow> Inl e
                     | Inr stream \<Rightarrow>
                         (case model_store env crf_prefix of
                            None \<Rightarrow> Inl (configuration_error ''crf-prefix'')
                          | Some _ \<Rightarrow>
                              make_ngram_pos_analyzer env (word_of_int n) stream crf_prefix))
                | _ \<Rightarrow> Inl (configuration_error ''crf-prefix''))
      | _ \<Rightarrow> Inl (configuration_error ''ngram''))"

subsection \<open>Registry\<close>

text \<open>
  Modelled from the spec: the factory behind \<^verbatim>\<open>load\<close> (analyzer.h, lines 109 to 115)
  is missing (\<^verbatim>\<open>analyzers/analyzer_factory.h\<close> is included but not). The
  registry maps a string identifier to a constructor that takes the global configuration
  and the extractor's own block.
\<close>

type_synonym 'a factory = "(string \<times> (table \<Rightarrow> table \<Rightarrow> error + 'a)) list"

text \<open>
  Modelled from the spec: registration is missing. It is an explicit step; registering
  the same identifier twice is a setup error.
\<close>

definition add ::
  "string \<Rightarrow> (table \<Rightarrow> table \<Rightarrow> error + 'a) \<Rightarrow> 'a factory \<Rightarrow> error + 'a factory" where
  "add identifier ctor registry =
     (if identifier \<in> fst ` set registry then Inl (configuration_error identifier)
      else Inr ((identifier, ctor) # registry))"

text \<open>
  Modelled from the spec: the factory's construction by identifier is missing. An
  unknown identifier is a configuration error; otherwise the registered constructor
  decides. The registry is returned as the call leaves it.
\<close>

definition factory_create ::
  "'a factory \<Rightarrow> string \<Rightarrow> table \<Rightarrow> table \<Rightarrow> (error + 'a) \<times> 'a factory" where
  "factory_create registry identifier global config =
     (case map_of registry identifier of
        None \<Rightarrow> (Inl (configuration_error identifier), registry)
      | Some ctor \<Rightarrow> (ctor global config, registry))"

text \<open>
  Modelled from the spec: the body of \<^verbatim>\<open>load\<close> is missing. The required field
  \<open>method\<close> of the extractor's block selects the registered variant.
\<close>

definition load :: "'a factory \<Rightarrow> table \<Rightarrow> table \<Rightarrow> (error + 'a) \<times> 'a factory" where
  "load registry global config =
     (case map_of config ''method'' of
        Some (toml_string identifier) \<Rightarrow> factory_create registry identifier global config
      | _ \<Rightarrow> (Inl (configuration_error ''method''), registry))"

text \<open>
  Modelled from the spec: the body of \<^verbatim>\<open>sequence::register_analyzers\<close> (line 114) is
  missing. It registers this analyzer under the identifier its configuration uses
  (\<^verbatim>\<open>method = "ngram-pos"\<close>, line 34).
\<close>

definition register_analyzers ::
  "environment \<Rightarrow> ngram_pos_analyzer factory \<Rightarrow> error + ngram_pos_analyzer factory" where
  "register_analyzers env registry = add ''ngram-pos'' (create env) registry"

subsection \<open>Example values\<close>

text \<open>
  A small filter chain (one segment per document, tokens cut at spaces), a small tagging
  model and an environment holding both, to run the definitions on.
\<close>

fun split_words :: "string \<Rightarrow> string \<Rightarrow> string list" where
  "split_words [] word = (if word = [] then [] else [word])"
| "split_words (c # cs) word =
     (if c = CHR '' '' then (if word = [] then split_words cs [] else word # split_words cs [])
      else split_words cs (word @ [c]))"

definition example_stream :: token_stream where
  "example_stream = \<lparr>chain = (\<lambda>text. [split_words text []]), pending = []\<rparr>"

definition example_crf :: crf where
  "example_crf tokens i = (if tokens ! i = ''bark'' then ''VB'' else ''NN'')"

definition example_env :: environment where
  "example_env =
     \<lparr>model_store = [''crf'' \<mapsto> example_crf],
      load_filters = (\<lambda>global config. Inr example_stream)\<rparr>"


section \<open>Lemmas on the height visitor\<close>

lemma max_list_Max: "xs \<noteq> [] \<Longrightarrow> max_list xs = Max (set xs)"
proof (induction xs)
  case Nil
  then show ?case by simp
next
  case (Cons x xs)
  show ?case
  proof (cases "xs = []")
    case True
    then show ?thesis by simp
  next
    case False
    with Cons show ?thesis by simp
  qed
qed

lemma max_list_ge: "x \<in> set xs \<Longrightarrow> x \<le> max_list xs"
  by (induction xs) auto

lemma digit_value_digit_char: "d < 10 \<Longrightarrow> digit_value (digit_char d) = d"
proof -
  assume "d < 10"
  then have "d \<in> {0, 1, 2, 3, 4, 5, 6, 7, 8, 9}" by auto
  then show ?thesis
    by (auto simp: digit_char_def digit_value_def)
qed

lemma from_decimal_snoc: "from_decimal (s @ [c]) = 10 * from_decimal s + digit_value c"
  by (simp add: from_decimal_def)

text \<open>\<open>to_string\<close> is the decimal rendering: reading it back gives the number.\<close>

lemma from_decimal_to_string: "from_decimal (to_string n) = n"
proof (induction n rule: to_string.induct)
  case (1 n)
  show ?case
  proof (cases "n < 10")
    case True
    then show ?thesis
      by (simp add: to_string.simps from_decimal_def digit_value_digit_char)
  next
    case False
    then have "from_decimal (to_string (n div 10)) = n div 10"
      using 1 by simp
    with False show ?thesis
      by (subst to_string.simps) (simp add: from_decimal_snoc digit_value_digit_char)
  qed
qed

text \<open>
  The loop over the children: when each child's 64-bit result is its height, the running
  maximum is the maximum of the heights.
\<close>

lemma fold_max_height:
  assumes "\<And>c. c \<in> set cs \<Longrightarrow> unat (height_visitor c) = tree_height c"
  shows "unat (fold (\<lambda>child max_height. max max_height (height_visitor child)) cs a)
         = max (unat a) (max_list (map tree_height cs))"
  using assms
proof (induction cs arbitrary: a)
  case Nil
  then show ?case by simp
next
  case (Cons c cs)
  have "unat (max a (height_visitor c)) = max (unat a) (tree_height c)"
    using Cons.prems[of c] by (simp add: max_def word_le_nat_alt)
  with Cons show ?case by (simp add: max.assoc)
qed

lemma height_visitor_refines:
  "tree_height t < 2 ^ 64 \<Longrightarrow> unat (height_visitor t) = tree_height t"
proof (induction t rule: height_visitor.induct)
  case (1 cat children)
  have le: "\<And>c. c \<in> set children \<Longrightarrow> tree_height c \<le> max_list (map tree_height children)"
    by (simp add: max_list_ge)
  have small: "max_list (map tree_height children) + 1 < 2 ^ 64"
    using "1.prems" by simp
  have ih: "\<And>c. c \<in> set children \<Longrightarrow> unat (height_visitor c) = tree_height c"
    using "1.IH" le small by fastforce
  have "unat (fold (\<lambda>child max_height. max max_height (height_visitor child)) children 0)
        = max_list (map tree_height children)"
    using fold_max_height[OF ih, of children 0] by simp
  then show ?case using small
    by (simp add: unat_word_ariths)
next
  case (2 cat w)
  then show ?case by simp
qed

lemma tree_height_internal_Max:
  "children \<noteq> [] \<Longrightarrow>
     tree_height (internal_node cat children) = 1 + Max (tree_height ` set children)"
  by (simp add: max_list_Max)

lemma increment_empty:
  "increment rep Map.empty = [rep \<mapsto> (1::'v::{monoid_add,one})]"
  by (simp add: increment_def subscript_def)

section \<open>The tree-depth featurizer\<close>

text \<open>
  C1. For every parse tree (whose height fits \<^verbatim>\<open>size_t\<close>, as the height of every tree
  that fits in memory does), the visitor's result is the tree's height: 1 for a leaf,
  one plus the maximum height of the children for an internal node. \<open>tree_tokenize\<close>
  adds one to the count of the single key \<open>depth-\<close> followed by the decimal rendering
  of that height and changes nothing else. On an empty map, a single leaf gives
  \<open>{depth-1: 1}\<close>, a root with two leaf children gives \<open>{depth-2: 1}\<close> and a chain
  root, internal node, leaf gives \<open>{depth-3: 1}\<close>.
\<close>

theorem depth_featurizer_height_key:
  "tree_height t < 2 ^ 64 \<Longrightarrow>
     unat (height_visitor t) = tree_height t
     \<and> tree_tokenize (parse_tree t) counts
         = counts(''depth-'' @ to_string (tree_height t)
                    \<mapsto> subscript counts (''depth-'' @ to_string (tree_height t))
                        + (1::'v::{monoid_add,one}))
     \<and> tree_tokenize (parse_tree (leaf_node c0 w0)) Map.empty = [''depth-1'' \<mapsto> (1::'v)]
     \<and> tree_tokenize (parse_tree (internal_node c0 [leaf_node c1 w1, leaf_node c2 w2])) Map.empty
         = [''depth-2'' \<mapsto> (1::'v)]
     \<and> tree_tokenize (parse_tree (internal_node c0 [internal_node c1 [leaf_node c2 w2]])) Map.empty
         = [''depth-3'' \<mapsto> (1::'v)]"
proof -
  assume fits: "tree_height t < 2 ^ 64"
  have h: "unat (height_visitor t) = tree_height t"
    using fits by (rule height_visitor_refines)
  have tok: "tree_tokenize (parse_tree t) counts
         = counts(''depth-'' @ to_string (tree_height t)
                    \<mapsto> subscript counts (''depth-'' @ to_string (tree_height t)) + (1::'v))"
    by (simp add: tree_tokenize_def increment_def Let_def h)
  have e1: "tree_tokenize (parse_tree (leaf_node c0 w0)) Map.empty = [''depth-1'' \<mapsto> (1::'v)]"
    by (simp add: tree_tokenize_def increment_empty digit_char_def to_string.simps)
  have e2: "tree_tokenize (parse_tree (internal_node c0 [leaf_node c1 w1, leaf_node c2 w2])) Map.empty
         = [''depth-2'' \<mapsto> (1::'v)]"
    by (simp add: tree_tokenize_def increment_empty digit_char_def to_string.simps)
  have e3: "tree_tokenize (parse_tree (internal_node c0 [internal_node c1 [leaf_node c2 w2]])) Map.empty
         = [''depth-3'' \<mapsto> (1::'v)]"
    by (simp add: tree_tokenize_def increment_empty digit_char_def to_string.simps)
  from h tok e1 e2 e3 show ?thesis by blast
qed

theorem depth_featurizer_height_key_witness:
  "tree_height (internal_node ''S'' [internal_node ''NP'' [leaf_node ''NN'' (Some ''dog'')],
                                     leaf_node ''VB'' (Some ''barks'')]) < 2 ^ 64
   \<and> unat (height_visitor (internal_node ''S'' [internal_node ''NP'' [leaf_node ''NN'' (Some ''dog'')],
                                     leaf_node ''VB'' (Some ''barks'')])) = 3
   \<and> tree_tokenize (parse_tree (internal_node ''S'' [internal_node ''NP'' [leaf_node ''NN'' (Some ''dog'')],
                                     leaf_node ''VB'' (Some ''barks'')]))
        [''depth-2'' \<mapsto> (7::uint64_t), ''depth-3'' \<mapsto> 4]
      = [''depth-2'' \<mapsto> 7, ''depth-3'' \<mapsto> 5]"
  using depth_featurizer_height_key
    [of "internal_node ''S'' [internal_node ''NP'' [leaf_node ''NN'' (Some ''dog'')],
                              leaf_node ''VB'' (Some ''barks'')]"
        "[''depth-2'' \<mapsto> (7::uint64_t), ''depth-3'' \<mapsto> 4]"]
  by (simp add: subscript_def digit_char_def to_string.simps)

text \<open>
  C7. \<open>tree_tokenize\<close> writes into the map it is given: the entry under its one key is
  set to the old count (zero when the key was absent) plus one, every entry under another
  key keeps its value, and no key is removed. So a second stage run on the result leaves
  alone whatever neither stage's key names.
\<close>

theorem tree_tokenize_frame:
  "tree_tokenize tree counts (''depth-'' @ to_string (unat (visit tree height_visitor)))
     = Some (subscript counts (''depth-'' @ to_string (unat (visit tree height_visitor))) + 1)
   \<and> (\<forall>k. k \<noteq> ''depth-'' @ to_string (unat (visit tree height_visitor))
          \<longrightarrow> tree_tokenize tree counts k = counts k)
   \<and> dom (tree_tokenize tree counts)
       = insert (''depth-'' @ to_string (unat (visit tree height_visitor))) (dom counts)
   \<and> (\<forall>k. k \<noteq> ''depth-'' @ to_string (unat (visit tree height_visitor))
          \<and> k \<noteq> ''depth-'' @ to_string (unat (visit tree' height_visitor))
          \<longrightarrow> tree_tokenize tree' (tree_tokenize tree counts) k = counts k)"
  by (simp add: tree_tokenize_def increment_def Let_def)

theorem tree_tokenize_frame_witness:
  "tree_tokenize (parse_tree (leaf_node ''NN'' None))
       [''NN_VB'' \<mapsto> (2::uint64_t), ''depth-1'' \<mapsto> 3] ''depth-1'' = Some 4
   \<and> tree_tokenize (parse_tree (leaf_node ''NN'' None))
       [''NN_VB'' \<mapsto> (2::uint64_t), ''depth-1'' \<mapsto> 3] ''NN_VB'' = Some 2
   \<and> dom (tree_tokenize (parse_tree (leaf_node ''NN'' None))
       [''NN_VB'' \<mapsto> (2::uint64_t), ''depth-1'' \<mapsto> 3]) = {''depth-1'', ''NN_VB''}
   \<and> tree_tokenize (parse_tree (internal_node ''S'' [leaf_node ''NN'' None]))
       (tree_tokenize (parse_tree (leaf_node ''NN'' None))
          [''NN_VB'' \<mapsto> (2::uint64_t), ''depth-1'' \<mapsto> 3]) ''NN_VB'' = Some 2"
  using tree_tokenize_frame
    [of "parse_tree (leaf_node ''NN'' None)"
        "[''NN_VB'' \<mapsto> (2::uint64_t), ''depth-1'' \<mapsto> 3]"
        "parse_tree (internal_node ''S'' [leaf_node ''NN'' None])"]
  by (simp add: subscript_def digit_char_def to_string.simps)

text \<open>
  C10. On an internal node with no children the loop body never runs, the running
  maximum stays 0 and the visitor returns 1. The featurizer has no failing branch: for
  a tree rooted at such a node it does what it does for a single leaf, adding one to
  \<open>depth-1\<close>, which on an empty map gives \<open>{depth-1: 1}\<close>.
\<close>

theorem childless_internal_node_depth_1:
  "height_visitor (internal_node cat []) = 1
   \<and> height_visitor (internal_node cat []) = height_visitor (leaf_node cat' w)
   \<and> tree_tokenize (parse_tree (internal_node cat [])) counts = increment ''depth-1'' counts
   \<and> tree_tokenize (parse_tree (internal_node cat [])) counts
       = tree_tokenize (parse_tree (leaf_node cat' w)) counts
   \<and> tree_tokenize (parse_tree (internal_node cat [])) Map.empty
       = [''depth-1'' \<mapsto> (1::'v::{monoid_add,one})]"
  by (simp add: tree_tokenize_def increment_empty digit_char_def to_string.simps)

section \<open>The n-gram-over-tags analyzer: windows and counts\<close>

lemma length_ngram_windows: "length (ngram_windows n tags) = length tags + 1 - n"
  by (simp add: ngram_windows_def)

lemma length_ngram_keys: "length (ngram_keys n tags) = length tags + 1 - n"
  by (simp add: ngram_keys_def length_ngram_windows)

lemma nth_ngram_keys:
  "i < length tags + 1 - n \<Longrightarrow> ngram_keys n tags ! i = join_tags (take n (drop i tags))"
  by (simp add: ngram_keys_def ngram_windows_def)

lemma increment_apply:
  "increment a counts k = (if k = a then Some (subscript counts a + 1) else counts k)"
  by (simp add: increment_def)

lemma subscript_increment:
  "subscript (increment a counts) k = (if k = a then subscript counts a + 1 else subscript counts k)"
  by (simp add: increment_def subscript_def)

lemma fold_increment:
  "fold increment ks counts k =
     (if k \<in> set ks then Some (subscript counts k + (of_nat (count_list ks k) :: 'v::semiring_1))
      else counts k)"
proof (induction ks arbitrary: counts)
  case Nil
  then show ?case by simp
next
  case (Cons a ks)
  have step: "fold increment (a # ks) counts k =
      (if k \<in> set ks
       then Some (subscript (increment a counts) k + (of_nat (count_list ks k) :: 'v))
       else increment a counts k)"
    using Cons.IH[of "increment a counts"] by simp
  show ?case
    unfolding step by (simp add: increment_apply subscript_increment add.assoc)
qed

text \<open>
  C2. For a tag sequence of length \<open>L\<close> produced for one segment and a window width
  \<open>n \<le> L\<close>, the extractor emits exactly \<open>L - n + 1\<close> window occurrences; for
  \<open>n > L\<close> it emits none and leaves the map as it was. The occurrence at position
  \<open>i\<close> is the \<open>n\<close> consecutive tags from \<open>i\<close> on, joined with the separator, and
  the count of every key grows by the number of its occurrences, duplicates counted.
\<close>

theorem ngram_window_occurrences:
  "(n \<le> length tags \<longrightarrow> length (ngram_keys n tags) = length tags - n + 1)
   \<and> (length tags < n \<longrightarrow> ngram_keys n tags = [] \<and> count_segment n tags counts = counts)
   \<and> (\<forall>i < length (ngram_keys n tags).
         ngram_keys n tags ! i = join_tags (take n (drop i tags))
         \<and> length (take n (drop i tags)) = n)
   \<and> count_segment n tags counts k =
       (if k \<in> set (ngram_keys n tags)
        then Some (subscript counts k + (of_nat (count_list (ngram_keys n tags) k) :: 'v::semiring_1))
        else counts k)"
proof -
  have a: "n \<le> length tags \<longrightarrow> length (ngram_keys n tags) = length tags - n + 1"
    by (auto simp: length_ngram_keys)
  have "length tags < n \<longrightarrow> ngram_keys n tags = []"
    using length_ngram_keys[of n tags] by auto
  then have b: "length tags < n \<longrightarrow> ngram_keys n tags = [] \<and> count_segment n tags counts = counts"
    by (simp add: count_segment_def)
  have c: "\<forall>i < length (ngram_keys n tags).
         ngram_keys n tags ! i = join_tags (take n (drop i tags))
         \<and> length (take n (drop i tags)) = n"
    by (auto simp: length_ngram_keys nth_ngram_keys)
  have d: "count_segment n tags counts k =
       (if k \<in> set (ngram_keys n tags)
        then Some (subscript counts k + (of_nat (count_list (ngram_keys n tags) k) :: 'v))
        else counts k)"
    unfolding count_segment_def by (rule fold_increment)
  from a b c d show ?thesis by blast
qed

lemma ngram_keys_example: "ngram_keys 2 [''NN'', ''VB'', ''NN''] = [''NN_VB'', ''VB_NN'']"
  by (simp add: ngram_keys_def ngram_windows_def upt_rec)

theorem ngram_window_occurrences_witness:
  "2 \<le> length [''NN'', ''VB'', ''NN'']
   \<and> length (ngram_keys 2 [''NN'', ''VB'', ''NN'']) = 2
   \<and> ngram_keys 2 [''NN'', ''VB'', ''NN''] = [''NN_VB'', ''VB_NN'']
   \<and> count_segment 2 [''NN'', ''VB'', ''NN''] Map.empty ''NN_VB'' = Some (1::uint64_t)
   \<and> count_segment 2 [''NN'', ''VB'', ''NN''] Map.empty ''VB_NN'' = Some (1::uint64_t)
   \<and> count_segment 2 [''NN'', ''VB'', ''NN''] (Map.empty :: uint64_t feature_map) ''NN_NN'' = None
   \<and> length [''NN'', ''VB'', ''NN''] < 4
   \<and> count_segment 4 [''NN'', ''VB'', ''NN''] [''NN_VB'' \<mapsto> (1::uint64_t)] = [''NN_VB'' \<mapsto> 1]"
  using ngram_window_occurrences [of 2 "[''NN'', ''VB'', ''NN'']" "Map.empty :: uint64_t feature_map" "''NN_VB''"]
    ngram_window_occurrences [of 2 "[''NN'', ''VB'', ''NN'']" "Map.empty :: uint64_t feature_map" "''VB_NN''"]
    ngram_window_occurrences [of 2 "[''NN'', ''VB'', ''NN'']" "Map.empty :: uint64_t feature_map" "''NN_NN''"]
    ngram_window_occurrences [of 4 "[''NN'', ''VB'', ''NN'']" "[''NN_VB'' \<mapsto> (1::uint64_t)]"]
  by (simp add: ngram_keys_example subscript_def)


section \<open>Determinism of analyze\<close>





lemma snd_analyze: "snd (analyze a d) = after_tokenize a d"
  by (simp add: analyze_def tokenize_def Let_def)


lemma split_words_example: "split_words ''dogs bark dogs'' [] = [''dogs'', ''bark'', ''dogs'']"
  by simp






section \<open>Construction\<close>

lemma create_Inr_order:
  "create env global config = Inr p \<Longrightarrow>
     \<exists>n. map_of config ''ngram'' = Some (toml_int n) \<and> 0 < n \<and> uint (n_value p) = n"
  by (auto simp: create_def make_ngram_pos_analyzer_def uint_word_of_int
           split: option.splits toml.splits if_splits sum.splits)

text \<open>
  C4. When the configured n-gram order is zero or negative, constructing the prototype
  fails with a configuration error. The order is never replaced by another one: whenever
  construction succeeds, the field \<open>ngram\<close> is a positive integer and the prototype's
  order is that integer.
\<close>

theorem create_rejects_nonpositive_order:
  "(map_of config ''ngram'' = Some (toml_int n) \<and> n \<le> 0
      \<longrightarrow> create env global config = Inl (configuration_error ''ngram''))
   \<and> (create env global config = Inr p
      \<longrightarrow> (\<exists>m. map_of config ''ngram'' = Some (toml_int m) \<and> 0 < m \<and> uint (n_value p) = m))"
proof -
  have "map_of config ''ngram'' = Some (toml_int n) \<and> n \<le> 0
      \<longrightarrow> create env global config = Inl (configuration_error ''ngram'')"
    by (simp add: create_def)
  moreover have "create env global config = Inr p
      \<longrightarrow> (\<exists>m. map_of config ''ngram'' = Some (toml_int m) \<and> 0 < m \<and> uint (n_value p) = m)"
    using create_Inr_order by blast
  ultimately show ?thesis by blast
qed

theorem create_rejects_nonpositive_order_witness:
  "create example_env []
      [(''method'', toml_string ''ngram-pos''), (''ngram'', toml_int 0),
       (''crf-prefix'', toml_string ''crf'')]
     = Inl (configuration_error ''ngram'')
   \<and> create example_env []
      [(''method'', toml_string ''ngram-pos''), (''ngram'', toml_int (- 3)),
       (''crf-prefix'', toml_string ''crf'')]
     = Inl (configuration_error ''ngram'')
   \<and> create example_env []
      [(''method'', toml_string ''ngram-pos''), (''ngram'', toml_int 2),
       (''crf-prefix'', toml_string ''crf'')]
     = Inr \<lparr>n_value = 2, stream' = example_stream, crf' = example_crf\<rparr>
   \<and> uint (n_value \<lparr>n_value = 2, stream' = example_stream, crf' = example_crf\<rparr>) = 2"
  using create_rejects_nonpositive_order
      [of "[(''method'', toml_string ''ngram-pos''), (''ngram'', toml_int 0),
            (''crf-prefix'', toml_string ''crf'')]" 0 example_env "[]"]
    create_rejects_nonpositive_order
      [of "[(''method'', toml_string ''ngram-pos''), (''ngram'', toml_int (- 3)),
            (''crf-prefix'', toml_string ''crf'')]" "- 3" example_env "[]"]
    create_rejects_nonpositive_order
      [of "[(''method'', toml_string ''ngram-pos''), (''ngram'', toml_int 2),
            (''crf-prefix'', toml_string ''crf'')]" 2 example_env "[]"
          "\<lparr>n_value = 2, stream' = example_stream, crf' = example_crf\<rparr>"]
  by (simp add: create_def make_ngram_pos_analyzer_def example_env_def)

lemma map_of_unregistered: "identifier \<notin> fst ` set registry \<Longrightarrow> map_of registry identifier = None"
  by (simp add: map_of_eq_None_iff)

text \<open>
  C5. Asking the factory for an identifier that is not registered fails with a
  configuration error, returns no prototype and leaves the registry as it was; so does
  \<open>load\<close> on a block whose \<open>method\<close> names such an identifier.
\<close>

theorem unregistered_identifier_fails:
  "identifier \<notin> fst ` set registry \<Longrightarrow>
     factory_create registry identifier global config
       = (Inl (configuration_error identifier), registry)
     \<and> (map_of config ''method'' = Some (toml_string identifier)
          \<longrightarrow> load registry global config = (Inl (configuration_error identifier), registry))"
  by (simp add: factory_create_def load_def map_of_unregistered)

theorem unregistered_identifier_fails_witness:
  "register_analyzers example_env [] = Inr [(''ngram-pos'', create example_env)]
   \<and> ''ngram-words'' \<notin> fst ` set [(''ngram-pos'', create example_env)]
   \<and> factory_create [(''ngram-pos'', create example_env)] ''ngram-words'' []
        [(''method'', toml_string ''ngram-words''), (''ngram'', toml_int 2)]
      = (Inl (configuration_error ''ngram-words''), [(''ngram-pos'', create example_env)])
   \<and> load [(''ngram-pos'', create example_env)] []
        [(''method'', toml_string ''ngram-words''), (''ngram'', toml_int 2)]
      = (Inl (configuration_error ''ngram-words''), [(''ngram-pos'', create example_env)])"
proof -
  have unregistered: "''ngram-words'' \<notin> fst ` set [(''ngram-pos'', create example_env)]"
    by simp
  have registered: "register_analyzers example_env [] = Inr [(''ngram-pos'', create example_env)]"
    by (simp add: register_analyzers_def add_def)
  from unregistered_identifier_fails [OF unregistered, of "[]"
      "[(''method'', toml_string ''ngram-words''), (''ngram'', toml_int 2)]"]
    unregistered registered
  show ?thesis by simp
qed

section \<open>Sequence tagger adapter\<close>



end
